theory Spec2Isabelle
  imports Complex_Main
begin

section \<open>JavaScript numbers\<close>

text \<open>
  The simulation computes on JavaScript numbers. A finite number is modelled by the real
  it denotes, so arithmetic on finite numbers is exact: rounding, overflow and the sign of
  zero are left out of the model. The special values are kept, since the arithmetic of the
  source can produce them from finite inputs (\<open>0 / 0\<close>, \<open>Math.log(0)\<close>,
  \<open>Math.sqrt\<close> of a negative number) and every operation then follows the IEEE
  rules for them. A zero divisor counts as \<open>+0\<close>.
\<close>

datatype number = Fin real | PInf | NInf | NaN

instantiation number :: "{plus, minus, uminus, times, inverse}"
begin

fun uminus_number :: "number \<Rightarrow> number" where
  "- Fin a = Fin (- a)"
| "- PInf = NInf"
| "- NInf = PInf"
| "- NaN = NaN"

fun plus_number :: "number \<Rightarrow> number \<Rightarrow> number" where
  "NaN + b = NaN"
| "a + NaN = NaN"
| "Fin a + Fin b = Fin (a + b)"
| "PInf + NInf = NaN"
| "NInf + PInf = NaN"
| "PInf + b = PInf"
| "a + PInf = PInf"
| "NInf + b = NInf"
| "a + NInf = NInf"

definition "a - b = a + - (b::number)"

fun times_number :: "number \<Rightarrow> number \<Rightarrow> number" where
  "NaN * b = NaN"
| "a * NaN = NaN"
| "Fin a * Fin b = Fin (a * b)"
| "PInf * Fin b = (if b = 0 then NaN else if 0 < b then PInf else NInf)"
| "NInf * Fin b = (if b = 0 then NaN else if 0 < b then NInf else PInf)"
| "Fin a * PInf = (if a = 0 then NaN else if 0 < a then PInf else NInf)"
| "Fin a * NInf = (if a = 0 then NaN else if 0 < a then NInf else PInf)"
| "PInf * PInf = PInf"
| "PInf * NInf = NInf"
| "NInf * PInf = NInf"
| "NInf * NInf = PInf"

fun divide_number :: "number \<Rightarrow> number \<Rightarrow> number" where
  "NaN div b = NaN"
| "a div NaN = NaN"
| "Fin a div Fin b =
     (if b \<noteq> 0 then Fin (a / b)
      else if a = 0 then NaN else if 0 < a then PInf else NInf)"
| "Fin a div PInf = Fin 0"
| "Fin a div NInf = Fin 0"
| "PInf div Fin b = (if 0 \<le> b then PInf else NInf)"
| "NInf div Fin b = (if 0 \<le> b then NInf else PInf)"
| "a div b = NaN"

definition "inverse a = Fin 1 div (a::number)"

instance ..

end

text \<open>
  Inside the instantiation the quotient is written \<open>div\<close>; on numbers \<open>a / b\<close> is the same
  constant.
\<close>

text \<open>The comparisons \<open>a < b\<close>, \<open>a > b\<close> and \<open>a === b\<close>: false as soon as one side is NaN.\<close>

fun num_lt :: "number \<Rightarrow> number \<Rightarrow> bool" where
  "num_lt NaN b = False"
| "num_lt a NaN = False"
| "num_lt (Fin a) (Fin b) = (a < b)"
| "num_lt PInf b = False"
| "num_lt a NInf = False"
| "num_lt a b = True"

definition num_gt :: "number \<Rightarrow> number \<Rightarrow> bool" where
  "num_gt a b = num_lt b a"


fun strict_eq :: "number \<Rightarrow> number \<Rightarrow> bool" where
  "strict_eq NaN b = False"
| "strict_eq a NaN = False"
| "strict_eq a b = (a = b)"

fun Math_sqrt :: "number \<Rightarrow> number" where
  "Math_sqrt (Fin a) = (if 0 \<le> a then Fin (sqrt a) else NaN)"
| "Math_sqrt PInf = PInf"
| "Math_sqrt NInf = NaN"
| "Math_sqrt NaN = NaN"

fun Math_log :: "number \<Rightarrow> number" where
  "Math_log (Fin a) = (if 0 < a then Fin (ln a) else if a = 0 then NInf else NaN)"
| "Math_log PInf = PInf"
| "Math_log NInf = NaN"
| "Math_log NaN = NaN"

fun Math_floor :: "number \<Rightarrow> number" where
  "Math_floor (Fin a) = Fin (of_int \<lfloor>a\<rfloor>)"
| "Math_floor a = a"

text \<open>
  \<open>Math.pow\<close>, by the cases of the language standard: a NaN exponent gives NaN, a zero
  exponent gives 1 whatever the base, and a negative base needs an integral exponent.
\<close>

fun Math_pow :: "number \<Rightarrow> number \<Rightarrow> number" where
  "Math_pow b NaN = NaN"
| "Math_pow b (Fin e) =
     (if e = 0 then Fin 1
      else case b of
        NaN \<Rightarrow> NaN
      | PInf \<Rightarrow> (if 0 < e then PInf else Fin 0)
      | NInf \<Rightarrow>
          (if 0 < e then (if of_int \<lfloor>e\<rfloor> = e \<and> odd \<lfloor>e\<rfloor> then NInf else PInf) else Fin 0)
      | Fin x \<Rightarrow>
          (if x = 0 then (if 0 < e then Fin 0 else PInf)
           else if 0 < x then Fin (x powr e)
           else if of_int \<lfloor>e\<rfloor> = e
             then Fin (if even \<lfloor>e\<rfloor> then \<bar>x\<bar> powr e else - (\<bar>x\<bar> powr e))
           else NaN))"
| "Math_pow b PInf =
     (case b of
        NaN \<Rightarrow> NaN
      | Fin x \<Rightarrow> (if 1 < \<bar>x\<bar> then PInf else if \<bar>x\<bar> = 1 then NaN else Fin 0)
      | _ \<Rightarrow> PInf)"
| "Math_pow b NInf =
     (case b of
        NaN \<Rightarrow> NaN
      | Fin x \<Rightarrow> (if 1 < \<bar>x\<bar> then Fin 0 else if \<bar>x\<bar> = 1 then NaN else PInf)
      | _ \<Rightarrow> Fin 0)"

section \<open>The simulation (src/simulation.ts)\<close>

text \<open>A ball is the tuple \<open>[x, y, x', y']\<close>.\<close>

type_synonym Ball = "number \<times> number \<times> number \<times> number"

definition COEFFICIENT_OF_RESTITUTION :: number where
  "COEFFICIENT_OF_RESTITUTION = Fin (1 / 2)"

definition GRAVITY :: number where
  "GRAVITY = Fin (- 1000)"

fun timeToImpact :: "Ball \<Rightarrow> number" where
  "timeToImpact (x, y, x', y') =
     ((- y') - Math_sqrt (y' * y' - Fin 2 * GRAVITY * y)) / GRAVITY"

definition flightTimeThisBounce :: "number \<Rightarrow> number" where
  "flightTimeThisBounce reboundVelocity = (Fin 2 * reboundVelocity) / (- GRAVITY)"

definition timeToStillness :: "number \<Rightarrow> number" where
  "timeToStillness reboundVelocity =
     flightTimeThisBounce reboundVelocity *
     (Fin 1 + COEFFICIENT_OF_RESTITUTION / (Fin 1 - COEFFICIENT_OF_RESTITUTION))"

definition timeForNBounces :: "number \<Rightarrow> number \<Rightarrow> number" where
  "timeForNBounces reboundVelocity bounces =
     (if strict_eq bounces (Fin 0) then Fin 0
      else (flightTimeThisBounce reboundVelocity *
              Math_pow (Fin 1 - COEFFICIENT_OF_RESTITUTION) bounces)
           / (Fin 1 - COEFFICIENT_OF_RESTITUTION))"

definition numberOfBouncesInPeriod :: "number \<Rightarrow> number \<Rightarrow> number" where
  "numberOfBouncesInPeriod reboundVelocity period =
     Math_floor
       (Math_log
          (Fin 1 -
             ((Fin 1 - COEFFICIENT_OF_RESTITUTION) * period)
               / flightTimeThisBounce reboundVelocity)
        / Math_log COEFFICIENT_OF_RESTITUTION)"

fun simulateWithoutImpacts :: "Ball \<Rightarrow> number \<Rightarrow> Ball" where
  "simulateWithoutImpacts (x, y, x', y') seconds =
     (let y1 = y + y' * seconds + Fin (1 / 2) * GRAVITY * seconds * seconds;
          y1' = y' + GRAVITY * seconds;
          x1 = x + x' * seconds
      in (x1, y1, x', y1'))"

fun simulateAfterImpact :: "Ball \<Rightarrow> number \<Rightarrow> Ball" where
  "simulateAfterImpact (x, y, x', y') seconds =
     (let reboundVelocity = y' in
      if num_lt (timeToStillness reboundVelocity) seconds
      then (x + x' * seconds, Fin 0, x', Fin 0)
      else
        let bounces = numberOfBouncesInPeriod reboundVelocity seconds;
            bounceTime = timeForNBounces reboundVelocity bounces
        in simulateWithoutImpacts
             (x + x' * bounceTime, Fin 0, x',
              reboundVelocity * Math_pow COEFFICIENT_OF_RESTITUTION bounces)
             (seconds - bounceTime))"

definition simulateSingleBall :: "Ball \<Rightarrow> number \<Rightarrow> Ball" where
  "simulateSingleBall ball seconds =
     (let tti = timeToImpact ball in
      if num_gt tti seconds
      then simulateWithoutImpacts ball seconds
      else
        case simulateWithoutImpacts ball tti of
          (x, y, x', y') \<Rightarrow>
            simulateAfterImpact (x, y, x', (- COEFFICIENT_OF_RESTITUTION) * y') (seconds - tti))"

definition simulateManyBalls :: "Ball list \<Rightarrow> number \<Rightarrow> Ball list" where
  "simulateManyBalls balls seconds = map (\<lambda>b. simulateSingleBall b seconds) balls"

section \<open>The quantities the specification names\<close>

text \<open>
  The time of the first \<open>n\<close> bounces as the source's comments and the specification give
  it: the sum of \<open>flightTimeThisBounce() * COEFFICIENT_OF_RESTITUTION ^ i\<close> for
  \<open>i < n\<close>, and its closed form \<open>flightTimeThisBounce() * (1 - r^n) / (1 - r)\<close>.
\<close>

fun bounceTimeSum :: "number \<Rightarrow> nat \<Rightarrow> number" where
  "bounceTimeSum reboundVelocity 0 = Fin 0"
| "bounceTimeSum reboundVelocity (Suc i) =
     bounceTimeSum reboundVelocity i +
     flightTimeThisBounce reboundVelocity * Math_pow COEFFICIENT_OF_RESTITUTION (Fin (real i))"

definition cumulativeBounceTime :: "number \<Rightarrow> nat \<Rightarrow> number" where
  "cumulativeBounceTime reboundVelocity n =
     flightTimeThisBounce reboundVelocity *
       (Fin 1 - Math_pow COEFFICIENT_OF_RESTITUTION (Fin (real n)))
     / (Fin 1 - COEFFICIENT_OF_RESTITUTION)"



text \<open>
  The repository keeps an earlier revision of the module (the source file whose name is
  not known). Its \<open>timeToImpact\<close> computes the same quotient behind a guard:
  \<^verbatim>\<open>if (isNaN(x) || isNaN(y) || isNaN(x_) || isNaN(y_)) { ...; throw new Error(...) }\<close>.
  The thrown error carries the ball; the warning it logs first is left out.
\<close>

datatype error = Error Ball

fun isNaN :: "number \<Rightarrow> bool" where
  "isNaN NaN = True"
| "isNaN a = False"

fun timeToImpact_guarded :: "Ball \<Rightarrow> error + number" where
  "timeToImpact_guarded (x, y, x', y') =
     (if isNaN x \<or> isNaN y \<or> isNaN x' \<or> isNaN y' then Inl (Error (x, y, x', y'))
      else Inr (((- y') - Math_sqrt (y' * y' - Fin 2 * GRAVITY * y)) / GRAVITY))"

section \<open>Evaluation on finite numbers\<close>

lemmas constants = COEFFICIENT_OF_RESTITUTION_def GRAVITY_def

lemmas trajectory_defs = flightTimeThisBounce_def timeToStillness_def timeForNBounces_def
  numberOfBouncesInPeriod_def

declare timeToImpact.simps [simp del]

lemma sqrt_4000000: "sqrt 4000000 = 2000"
  by (rule real_sqrt_unique) simp_all

lemma timeToImpact_Fin:
  assumes "0 \<le> y"
  shows "timeToImpact (Fin x, Fin y, Fin vx, Fin vy) =
    Fin ((vy + sqrt (vy * vy + 2000 * y)) / 1000)"
proof -
  have "0 \<le> vy * vy + 2000 * y"
    using assms by simp
  then show ?thesis
    by (simp add: timeToImpact.simps constants minus_number_def field_simps)
qed

lemma timeToImpact_drop: "timeToImpact (Fin x, Fin 2000, Fin vx, Fin 0) = Fin 2"
  by (simp add: timeToImpact_Fin sqrt_4000000)

lemma simulateWithoutImpacts_Fin:
  "simulateWithoutImpacts (Fin x, Fin y, Fin vx, Fin vy) (Fin s) =
     (Fin (x + vx * s), Fin (y + vy * s - 500 * s * s), Fin vx, Fin (vy - 1000 * s))"
  by (simp add: constants)

declare simulateWithoutImpacts.simps [simp del]



subsection \<open>The logarithm to base one half\<close>

lemma ln_half_neg: "ln (1 / 2 :: real) < 0"
  by simp

lemma log_half_ge_iff:
  assumes "0 < q"
  shows "real n \<le> ln q / ln (1 / 2 :: real) \<longleftrightarrow> q \<le> (1 / 2) ^ n"
proof -
  have "real n \<le> ln q / ln (1 / 2 :: real) \<longleftrightarrow> ln q \<le> real n * ln (1 / 2 :: real)"
    using ln_half_neg by (simp add: le_divide_eq)
  also have "\<dots> \<longleftrightarrow> ln q \<le> ln ((1 / 2 :: real) ^ n)"
    by (simp add: ln_realpow)
  also have "\<dots> \<longleftrightarrow> q \<le> (1 / 2) ^ n"
    using assms by simp
  finally show ?thesis .
qed

lemma floor_log_half:
  assumes "0 < q" "(1 / 2) ^ Suc n < q" "q \<le> (1 / 2) ^ n"
  shows "\<lfloor>ln q / ln (1 / 2 :: real)\<rfloor> = int n"
proof (rule floor_unique)
  show "of_int (int n) \<le> ln q / ln (1 / 2 :: real)"
    using log_half_ge_iff [OF assms(1), of n] assms(3) by simp
  have "\<not> real (Suc n) \<le> ln q / ln (1 / 2 :: real)"
    using log_half_ge_iff [OF assms(1), of "Suc n"] assms(2) by simp
  then show "ln q / ln (1 / 2 :: real) < of_int (int n) + 1"
    by simp
qed

section \<open>The bounce-time formulas\<close>

text \<open>
  C1 (the code departs from the claim). The claim: \<open>timeForNBounces(v, n)\<close> is the time of
  the first \<open>n\<close> bounces, the geometric sum with closed form
  \<open>flightTimeThisBounce(v) * (1 - r^n) / (1 - r)\<close>. The source raises \<open>1 - r\<close> to the power
  \<open>n\<close> instead of subtracting \<open>r^n\<close> from 1. For a rebound velocity of 1000 and two
  bounces it returns 1, where the sum of the two flight times and the closed form both
  give 3.
\<close>

theorem timeForNBounces_two_bounces:
  "timeForNBounces (Fin 1000) (Fin 2) = Fin 1
   \<and> bounceTimeSum (Fin 1000) 2 = Fin 3
   \<and> cumulativeBounceTime (Fin 1000) 2 = Fin 3"
  by (simp add: trajectory_defs constants minus_number_def cumulativeBounceTime_def
      power2_eq_square numeral_2_eq_2)

text \<open>For no bounce and for one bounce the source agrees with the sum.\<close>

lemma timeForNBounces_zero_one:
  "timeForNBounces (Fin v) (Fin 0) = Fin 0
   \<and> timeForNBounces (Fin v) (Fin 1) = flightTimeThisBounce (Fin v)"
  by (simp add: trajectory_defs constants minus_number_def)






section \<open>The time to impact\<close>








text \<open>
  C3 (the code departs from the claim). The claim: a NaN component makes the trajectory
  functions and the integrator signal an error instead of returning. In
  \<open>src/simulation.ts\<close> nothing raises: \<open>timeToImpact\<close> of a ball whose height is NaN returns
  NaN, every comparison with it is false, and \<open>simulateSingleBall\<close> returns a ball of NaNs.
  The earlier revision of \<open>timeToImpact\<close> raises on the same ball.
\<close>

theorem timeToImpact_NaN_propagates:
  "timeToImpact (Fin 0, NaN, Fin 0, Fin 0) = NaN
   \<and> simulateSingleBall (Fin 0, NaN, Fin 0, Fin 0) (Fin 1) = (NaN, NaN, Fin 0, NaN)
   \<and> timeToImpact_guarded (Fin 0, NaN, Fin 0, Fin 0) = Inl (Error (Fin 0, NaN, Fin 0, Fin 0))"
  by (simp add: timeToImpact.simps simulateWithoutImpacts.simps simulateSingleBall_def
      num_gt_def trajectory_defs constants minus_number_def Let_def)

section \<open>The integrator\<close>

text \<open>
  C9. The horizontal velocity of the ball \<open>simulateSingleBall\<close> returns is the horizontal
  velocity of its argument, for every ball and every duration: each branch copies it.
\<close>

theorem simulateSingleBall_horizontal_velocity:
  "fst (snd (snd (simulateSingleBall (x, y, vx, vy) dt))) = vx"
  by (simp add: simulateSingleBall_def simulateWithoutImpacts.simps Let_def split: prod.splits)





text \<open>
  C6. With \<open>g = -1000\<close> and \<open>r = 0.5\<close> the ball \<open>(0, 2000, 0, 0)\<close> reaches the floor after 2
  seconds and, advanced by 3 seconds, is at \<open>(0, 2000 r^2, 0, 0) = (0, 500, 0, 0)\<close>.
\<close>

theorem simulateSingleBall_scenario_C:
  "GRAVITY = Fin (- 1000) \<and> COEFFICIENT_OF_RESTITUTION = Fin (1 / 2)
   \<and> timeToImpact (Fin 0, Fin 2000, Fin 0, Fin 0) = Fin 2
   \<and> simulateSingleBall (Fin 0, Fin 2000, Fin 0, Fin 0) (Fin 3) =
        (Fin 0, Fin 2000 * COEFFICIENT_OF_RESTITUTION * COEFFICIENT_OF_RESTITUTION, Fin 0, Fin 0)
   \<and> Fin 2000 * COEFFICIENT_OF_RESTITUTION * COEFFICIENT_OF_RESTITUTION = Fin 500"
proof -
  have bounces: "\<lfloor>ln (3 / 4) / ln (1 / 2 :: real)\<rfloor> = 0"
    using floor_log_half [of "3 / 4" 0] by simp
  have "simulateSingleBall (Fin 0, Fin 2000, Fin 0, Fin 0) (Fin 3) = (Fin 0, Fin 500, Fin 0, Fin 0)"
    by (simp add: simulateSingleBall_def Let_def timeToImpact_drop num_gt_def
        simulateWithoutImpacts_Fin trajectory_defs constants minus_number_def bounces)
  then show ?thesis
    by (simp add: timeToImpact_drop constants)
qed

text \<open>
  C2 (the code departs from the claim). The claim: a finite ball with \<open>y \<ge> 0\<close>, advanced
  by \<open>dt \<ge> 0\<close>, has \<open>y \<ge> 0\<close>. The ball \<open>(0, 2000, 0, 0)\<close> advanced by 5.2 seconds hits the
  floor after 2 seconds and rebounds at 1000; in the remaining 3.2 seconds two bounces
  fit, which take 3 seconds. \<open>timeForNBounces\<close> gives 1 second for them, so the last
  flight is simulated for 2.2 seconds at velocity 250 and ends at height -1870.
\<close>

theorem simulateSingleBall_below_floor:
  "numberOfBouncesInPeriod (Fin 1000) (Fin (16 / 5)) = Fin 2
   \<and> timeForNBounces (Fin 1000) (Fin 2) = Fin 1
   \<and> simulateSingleBall (Fin 0, Fin 2000, Fin 0, Fin 0) (Fin (26 / 5)) =
        (Fin 0, Fin (- 1870), Fin 0, Fin (- 1950))"
proof -
  have bounces: "\<lfloor>ln (1 / 5) / ln (1 / 2 :: real)\<rfloor> = 2"
    using floor_log_half [of "1 / 5" 2] by (simp add: power2_eq_square power3_eq_cube)
  have count: "numberOfBouncesInPeriod (Fin 1000) (Fin (16 / 5)) = Fin 2"
    by (simp add: trajectory_defs constants minus_number_def bounces)
  have time: "timeForNBounces (Fin 1000) (Fin 2) = Fin 1"
    by (simp add: trajectory_defs constants minus_number_def power2_eq_square)
  have "simulateSingleBall (Fin 0, Fin 2000, Fin 0, Fin 0) (Fin (26 / 5)) =
        (Fin 0, Fin (- 1870), Fin 0, Fin (- 1950))"
    by (simp add: simulateSingleBall_def Let_def timeToImpact_drop num_gt_def
        simulateWithoutImpacts_Fin trajectory_defs constants minus_number_def bounces
        power2_eq_square)
  with count time show ?thesis
    by simp
qed





text \<open>
  The ball at rest on the floor is outside the amended statement. Its rebound velocity
  is 0, so is its flight time, and \<open>numberOfBouncesInPeriod\<close> divides 0 by 0: the step of
  0 seconds returns NaN for the position and the vertical velocity.
\<close>

lemma simulateSingleBall_at_rest_zero_seconds:
  "simulateSingleBall (Fin x, Fin 0, Fin vx, Fin 0) (Fin 0) = (NaN, NaN, Fin vx, NaN)"
  by (simp add: simulateSingleBall_def Let_def timeToImpact_Fin simulateWithoutImpacts.simps
      num_gt_def trajectory_defs constants minus_number_def)

end
